theory Spec2Isabelle
  imports Complex_Main
begin

section \<open>The raster plotting helper \<open>plot_layer\<close>\<close>

text \<open>
  The notebooks define one function with logic of its own, \<open>plot_layer\<close>: it opens a GDAL
  raster, computes the display extent from the geotransform, reads and masks the bands,
  chooses plotting options from the layer type, and renders one subplot per band.

  Geotransform coefficients and colour bounds are modelled as reals. Pixel values and
  no-data values are floating-point values with their infinities and NaN, compared as
  numpy compares them. The function returns nothing in the source: what it leaves behind
  is the text it printed, the figure in the plotting library's state and, on failure, the
  exception that left the call. The model returns these three.
\<close>

subsection \<open>Strings and paths\<close>

text \<open>Python's \<open>str.startswith\<close> and \<open>str.endswith\<close>.\<close>

definition startswith :: "string \<Rightarrow> string \<Rightarrow> bool" where
  "startswith s p = (take (length p) s = p)"

definition endswith :: "string \<Rightarrow> string \<Rightarrow> bool" where
  "endswith s p = (length p \<le> length s \<and> drop (length s - length p) s = p)"

text \<open>
  \<open>os.path\<close> on a POSIX system: with \<open>i = p.rfind('/') + 1\<close>, \<open>basename\<close> is \<open>p[i:]\<close>
  and \<open>dirname\<close> is \<open>p[:i]\<close> with its trailing separators stripped, unless it consists
  of separators only.
\<close>

definition path_head :: "string \<Rightarrow> string" where
  "path_head p = rev (dropWhile (\<lambda>c. c \<noteq> CHR ''/'') (rev p))"

definition rstrip_sep :: "string \<Rightarrow> string" where
  "rstrip_sep s = rev (dropWhile (\<lambda>c. c = CHR ''/'') (rev s))"

definition basename :: "string \<Rightarrow> string" where
  "basename p = rev (takeWhile (\<lambda>c. c \<noteq> CHR ''/'') (rev p))"

definition dirname :: "string \<Rightarrow> string" where
  "dirname p =
     (let head = path_head p
      in if head \<noteq> [] \<and> head \<noteq> replicate (length head) (CHR ''/'')
         then rstrip_sep head else head)"

subsection \<open>Rasters\<close>

datatype error =
    OpenError
  | BandError nat
  | UnsupportedBands
  | SubplotsError
  | IndexError

text \<open>
  \<open>OpenError\<close>: \<open>gdal.Open\<close> raises (the notebook calls \<open>gdal.UseExceptions()\<close>).
  \<open>BandError k\<close>: \<open>ds.GetRasterBand(k)\<close> raises, the dataset has no band \<open>k\<close>.
  \<open>UnsupportedBands\<close>: \<open>Exception('Number of bands currently unsupported')\<close>.
  \<open>SubplotsError\<close>: \<open>plt.subplots\<close> refuses a column count that is not positive.
  \<open>IndexError\<close>: a list read out of range.
\<close>

text \<open>
  The value of an array element or of a Python float: a number, an infinity, or NaN.
  The Python float \<open>1e20\<close> is the number \<open>10 ^ 20\<close>.
\<close>

datatype pixel = Num real | PosInf | NegInf | NaN

text \<open>
  numpy's \<open>>\<close> and \<open>==\<close> on two such values: NaN is neither greater than nor equal to
  anything, itself included.
\<close>

fun np_greater :: "pixel \<Rightarrow> pixel \<Rightarrow> bool" where
  "np_greater (Num x) (Num y) = (y < x)"
| "np_greater (Num x) NegInf = True"
| "np_greater PosInf (Num y) = True"
| "np_greater PosInf NegInf = True"
| "np_greater _ _ = False"

fun np_equal :: "pixel \<Rightarrow> pixel \<Rightarrow> bool" where
  "np_equal (Num x) (Num y) = (x = y)"
| "np_equal PosInf PosInf = True"
| "np_equal NegInf NegInf = True"
| "np_equal _ _ = False"

datatype nodata_lookup = NoDataRaises | NoDataValue "pixel option"

text \<open>
  numpy compares an array with a Python float in a common type. When the array has a
  floating type the float is converted to it: for a 32-bit band \<open>1e20\<close> becomes
  \<open>100000002004087734272\<close>. When the array has an integer type its elements are converted
  to 64-bit floats. Both conversions belong to the data type of the band and to numpy, not
  to the notebook, so a band carries them: \<open>element_as_compared\<close> for an element of its
  array and \<open>scalar_as_compared\<close> for a Python float. For a 64-bit float band both change
  nothing.
\<close>

record raster_band =
  ReadAsArray :: "pixel list list"
  GetNoDataValue :: nodata_lookup
  element_as_compared :: "pixel \<Rightarrow> pixel"
  scalar_as_compared :: "pixel \<Rightarrow> pixel"

record dataset =
  GetGeoTransform :: "real \<times> real \<times> real \<times> real \<times> real \<times> real"
  RasterXSize :: int
  RasterYSize :: int
  raster_bands :: "raster_band list"

definition RasterCount :: "dataset \<Rightarrow> int" where
  "RasterCount ds = int (length (raster_bands ds))"

text \<open>Bands are numbered from 1.\<close>

definition GetRasterBand :: "dataset \<Rightarrow> nat \<Rightarrow> error + raster_band" where
  "GetRasterBand ds k =
     (if 1 \<le> k \<and> k \<le> length (raster_bands ds) then Inr (raster_bands ds ! (k - 1))
      else Inl (BandError k))"

record masked_array =
  ma_data :: "pixel list list"
  ma_mask :: "bool list list"

definition masked_where :: "bool list list \<Rightarrow> pixel list list \<Rightarrow> masked_array" where
  "masked_where cond arr = \<lparr>ma_data = arr, ma_mask = cond\<rparr>"

subsection \<open>Reading and masking the bands\<close>

text \<open>
  One element of \<open>arr>1e20\<close> and of \<open>arr==NoData\<close>. Comparing with \<open>None\<close> is false at
  every element.
\<close>

definition greater_1e20 :: "raster_band \<Rightarrow> pixel \<Rightarrow> bool" where
  "greater_1e20 raster v =
     np_greater (element_as_compared raster v) (scalar_as_compared raster (Num (10 ^ 20)))"

definition equal_NoData :: "raster_band \<Rightarrow> pixel option \<Rightarrow> pixel \<Rightarrow> bool" where
  "equal_NoData raster NoData v =
     (case NoData of
        None \<Rightarrow> False
      | Some s \<Rightarrow> np_equal (element_as_compared raster v) (scalar_as_compared raster s))"

text \<open>
  The body of the loop over the bands, after \<open>GetRasterBand\<close>: the text printed and the
  masked array appended to \<open>lst_arrs\<close>.
\<close>

definition load_band :: "raster_band \<Rightarrow> string list \<times> masked_array" where
  "load_band raster =
     (let arr = ReadAsArray raster
      in case GetNoDataValue raster of
           NoDataValue NoData \<Rightarrow>
             ([], masked_where
                    (map (map (\<lambda>v. greater_1e20 raster v \<or> equal_NoData raster NoData v)) arr)
                    arr)
         | NoDataRaises \<Rightarrow>
             ([''Could not find a no-data value...''],
              masked_where (map (map (greater_1e20 raster)) arr) arr))"

text \<open>\<open>for band in range(n_bands)\<close>: the printed text, and the arrays or the exception.\<close>

fun load_bands :: "dataset \<Rightarrow> nat list \<Rightarrow> string list \<times> (error + masked_array list)" where
  "load_bands ds [] = ([], Inr [])"
| "load_bands ds (band # rest) =
     (case GetRasterBand ds (band + 1) of
        Inl e \<Rightarrow> ([], Inl e)
      | Inr raster \<Rightarrow>
          (case load_band raster of (out, arr) \<Rightarrow>
             (case load_bands ds rest of
                (out', Inl e) \<Rightarrow> (out @ out', Inl e)
              | (out', Inr arrs) \<Rightarrow> (out @ out', Inr (arr # arrs)))))"

text \<open>\<open>range(n)\<close> for a Python integer: empty when \<open>n\<close> is not positive.\<close>

definition range :: "int \<Rightarrow> nat list" where
  "range n = [0 ..< nat n]"

subsection \<open>Plotting options\<close>

text \<open>
  \<open>Greys_r\<close> stands for \<open>plt.cm.Greys_r\<close> after \<open>set_under('black')\<close>, \<open>Greys\<close> for the
  colormap name \<open>'Greys'\<close>; \<open>Named\<close> is any other colormap a caller may pass.
\<close>

datatype colormap = Greys_r | Greys | Coolwarm | Terrain | Named string

record plot_options =
  opt_vmin :: "real option"
  opt_vmax :: "real option"
  opt_cmap :: colormap
  opt_title :: "string list"
  opt_wspace :: "real option"

text \<open>
  The chain of tests on the layer type. It starts from the colormap and the title list set
  before it and overrides them in some branches.
\<close>

definition layer_options :: "string \<Rightarrow> colormap \<Rightarrow> string list \<Rightarrow> plot_options" where
  "layer_options lay_type cmap title =
     (if endswith lay_type ''amplitude'' then
        \<lparr>opt_vmin = None, opt_vmax = Some 2000, opt_cmap = cmap, opt_title = title,
         opt_wspace = None\<rparr>
      else if endswith lay_type ''coherence'' then
        \<lparr>opt_vmin = Some 0, opt_vmax = Some 1, opt_cmap = cmap, opt_title = title,
         opt_wspace = None\<rparr>
      else if endswith lay_type ''incidenceAngle'' then
        \<lparr>opt_vmin = None, opt_vmax = None, opt_cmap = cmap, opt_title = title,
         opt_wspace = None\<rparr>
      else if startswith lay_type ''water'' then
        \<lparr>opt_vmin = Some 0, opt_vmax = Some 1, opt_cmap = Greys, opt_title = title,
         opt_wspace = None\<rparr>
      else if startswith lay_type ''defo'' then
        \<lparr>opt_vmin = None, opt_vmax = None, opt_cmap = Coolwarm, opt_title = title,
         opt_wspace = None\<rparr>
      else if startswith lay_type ''terr'' \<or> startswith lay_type ''topo'' then
        \<lparr>opt_vmin = None, opt_vmax = None, opt_cmap = Terrain, opt_title = title,
         opt_wspace = None\<rparr>
      else if lay_type = ''ENU'' then
        \<lparr>opt_vmin = None, opt_vmax = None, opt_cmap = cmap,
         opt_title = [''East'', ''North'', ''Up''], opt_wspace = Some (1 / 2)\<rparr>
      else
        \<lparr>opt_vmin = None, opt_vmax = None, opt_cmap = Coolwarm, opt_title = title,
         opt_wspace = None\<rparr>)"

subsection \<open>The figure\<close>

datatype colorbar = ColorbarPlain | ColorbarFormat3f | ColorbarTicks "real option list"

record image =
  im_array :: masked_array
  im_cmap :: colormap
  im_vmin :: "real option"
  im_vmax :: "real option"
  im_extent :: "real list"

text \<open>An axes as \<open>plt.subplots\<close> creates it is blank; the rendering loop fills it in.\<close>

record axes =
  ax_image :: "image option"
  ax_colorbar :: "colorbar option"
  ax_title :: "string option"
  ax_grid :: "bool option"
  ax_ylabel :: "string option"
  ax_xlabel :: "string option"

definition blank_axes :: axes where
  "blank_axes = \<lparr>ax_image = None, ax_colorbar = None, ax_title = None, ax_grid = None,
                 ax_ylabel = None, ax_xlabel = None\<rparr>"

record figure =
  fig_nrows :: int
  fig_ncols :: int
  fig_wspace :: "real option"
  fig_axes :: "axes list"

text \<open>
  \<open>plt.subplots(ncols=ncols, nrows=nrows)\<close> followed by \<open>axes.ravel()\<close>. The figure is
  created first and the grid of axes laid out on it next: a row count and a column count
  that are not both positive raise at the grid, and the figure stays, with no grid (0 rows
  and 0 columns here) and no axes.
\<close>

definition empty_figure :: figure where
  "empty_figure = \<lparr>fig_nrows = 0, fig_ncols = 0, fig_wspace = None, fig_axes = []\<rparr>"

definition subplots :: "int \<Rightarrow> int \<Rightarrow> figure \<times> error option" where
  "subplots ncols nrows =
     (if ncols \<le> 0 \<or> nrows \<le> 0 then (empty_figure, Some SubplotsError)
      else (\<lparr>fig_nrows = nrows, fig_ncols = ncols, fig_wspace = None,
             fig_axes = replicate (nat (nrows * ncols)) blank_axes\<rparr>, None))"

text \<open>
  One turn of \<open>for i, ax in enumerate(axe)\<close>: the image and the colorbar are drawn before
  the title is looked up, so an exception at the title leaves them on the axes.
\<close>

definition render_axes ::
  "string \<Rightarrow> plot_options \<Rightarrow> real list \<Rightarrow> masked_array list \<Rightarrow> nat \<Rightarrow> axes \<Rightarrow> axes \<times> error option" where
  "render_axes lay_type opts extent lst_arrs i ax =
     (if length lst_arrs \<le> i then (ax, Some IndexError)
      else
        let im = \<lparr>im_array = lst_arrs ! i, im_cmap = opt_cmap opts, im_vmin = opt_vmin opts,
                  im_vmax = opt_vmax opts, im_extent = extent\<rparr>;
            cb = (if lay_type = ''ENU'' then ColorbarFormat3f
                  else if startswith lay_type ''water''
                       then ColorbarTicks [opt_vmin opts, opt_vmax opts]
                  else ColorbarPlain);
            ax1 = ax\<lparr>ax_image := Some im, ax_colorbar := Some cb\<rparr>
        in if length (opt_title opts) \<le> i then (ax1, Some IndexError)
           else (ax1\<lparr>ax_title := Some (opt_title opts ! i), ax_grid := Some False\<rparr>, None))"

fun render_loop ::
  "string \<Rightarrow> plot_options \<Rightarrow> real list \<Rightarrow> masked_array list \<Rightarrow> (nat \<times> axes) list
     \<Rightarrow> axes list \<times> error option" where
  "render_loop lay_type opts extent lst_arrs [] = ([], None)"
| "render_loop lay_type opts extent lst_arrs ((i, ax) # rest) =
     (case render_axes lay_type opts extent lst_arrs i ax of
        (ax', Some e) \<Rightarrow> (ax' # map snd rest, Some e)
      | (ax', None) \<Rightarrow>
          (case render_loop lay_type opts extent lst_arrs rest of
             (axs, r) \<Rightarrow> (ax' # axs, r)))"

text \<open>\<open>axe[k].set_ylabel(...)\<close> and \<open>axe[k].set_xlabel(...)\<close>, with \<open>k\<close> a Python index.\<close>

definition set_ylabel :: "axes list \<Rightarrow> int \<Rightarrow> string \<Rightarrow> error + axes list" where
  "set_ylabel axe k s =
     (let n = int (length axe); j = (if k < 0 then n + k else k)
      in if 0 \<le> j \<and> j < n
         then Inr (axe[nat j := (axe ! nat j)\<lparr>ax_ylabel := Some s\<rparr>])
         else Inl IndexError)"

definition set_xlabel :: "axes list \<Rightarrow> int \<Rightarrow> string \<Rightarrow> error + axes list" where
  "set_xlabel axe k s =
     (let n = int (length axe); j = (if k < 0 then n + k else k)
      in if 0 \<le> j \<and> j < n
         then Inr (axe[nat j := (axe ! nat j)\<lparr>ax_xlabel := Some s\<rparr>])
         else Inl IndexError)"

subsection \<open>The call\<close>

record outcome =
  printed :: "string list"
  canvas :: "figure option"
  raised :: "error option"

text \<open>Python's truth test on the two optional arguments.\<close>

definition resolve_lay_type :: "string \<Rightarrow> string option \<Rightarrow> string" where
  "resolve_lay_type path_layer lay_type =
     (case lay_type of
        None \<Rightarrow> dirname path_layer
      | Some t \<Rightarrow> if t = [] then dirname path_layer else t)"

definition resolve_n_bands :: "dataset \<Rightarrow> int option \<Rightarrow> int" where
  "resolve_n_bands ds n_bands =
     (case n_bands of
        None \<Rightarrow> RasterCount ds
      | Some n \<Rightarrow> if n = 0 then RasterCount ds else n)"

definition extent_of :: "dataset \<Rightarrow> real list" where
  "extent_of ds =
     (case GetGeoTransform ds of
        (t0, t1, t2, t3, t4, t5) \<Rightarrow>
          [t0, t0 + real_of_int (RasterXSize ds) * t1,
           t3 + real_of_int (RasterYSize ds) * t5, t3])"

text \<open>
  \<open>plot_layer\<close>, with the file system as a map from paths to the datasets that open. The
  \<open>cmap\<close> argument is overwritten before its first use.
\<close>

definition plot_layer ::
  "(string \<rightharpoonup> dataset) \<Rightarrow> string \<Rightarrow> string option \<Rightarrow> colormap option \<Rightarrow> int option \<Rightarrow> outcome" where
  "plot_layer fs path_layer lay_type_arg cmap_arg n_bands_arg =
     (let lay_type = resolve_lay_type path_layer lay_type_arg;
          title = [basename lay_type]
      in case fs path_layer of
           None \<Rightarrow> \<lparr>printed = [], canvas = None, raised = Some OpenError\<rparr>
         | Some ds \<Rightarrow>
             let extent = extent_of ds;
                 n_bands = resolve_n_bands ds n_bands_arg
             in (case load_bands ds (range n_bands) of
                   (out, Inl e) \<Rightarrow> \<lparr>printed = out, canvas = None, raised = Some e\<rparr>
                 | (out, Inr lst_arrs) \<Rightarrow>
                     if \<not> n_bands < 4
                     then \<lparr>printed = out, canvas = None, raised = Some UnsupportedBands\<rparr>
                     else
                       (case subplots n_bands 1 of
                          (fig0, Some e) \<Rightarrow>
                            \<lparr>printed = out, canvas = Some fig0, raised = Some e\<rparr>
                        | (fig0, None) \<Rightarrow>
                            let cmap = Greys_r;
                                opts = layer_options lay_type cmap title;
                                fig = (case opt_wspace opts of
                                         None \<Rightarrow> fig0
                                       | Some w \<Rightarrow> fig0\<lparr>fig_wspace := Some w\<rparr>)
                            in (case render_loop lay_type opts extent lst_arrs
                                       (enumerate 0 (fig_axes fig)) of
                                  (axe, Some e) \<Rightarrow>
                                    \<lparr>printed = out, canvas = Some (fig\<lparr>fig_axes := axe\<rparr>),
                                     raised = Some e\<rparr>
                                | (axe, None) \<Rightarrow>
                                    (case set_ylabel axe 0 ''latitude'' of
                                       Inl e \<Rightarrow>
                                         \<lparr>printed = out, canvas = Some (fig\<lparr>fig_axes := axe\<rparr>),
                                          raised = Some e\<rparr>
                                     | Inr axe1 \<Rightarrow>
                                         (case set_xlabel axe1 (n_bands div 2) ''longitude'' of
                                            Inl e \<Rightarrow>
                                              \<lparr>printed = out,
                                               canvas = Some (fig\<lparr>fig_axes := axe1\<rparr>),
                                               raised = Some e\<rparr>
                                          | Inr axe2 \<Rightarrow>
                                              \<lparr>printed = out,
                                               canvas = Some (fig\<lparr>fig_axes := axe2\<rparr>),
                                               raised = None\<rparr>))))))"

subsection \<open>A format whose no-data lookup returns nothing\<close>



subsection \<open>Rasters used in the examples\<close>

text \<open>
  A raster of \<open>k\<close> equal 64-bit float bands of two rows and three columns with the
  no-data value 0, on the grid of the example in the specification: origin
  \<open>(-120, 35)\<close>, pixels of 0.01 degrees, 100 by 100 pixels. It is stored at the path
  \<open>a/b/water/x.tif\<close>.
\<close>

definition example_band :: raster_band where
  "example_band =
     \<lparr>ReadAsArray = [[Num 0, Num (10 ^ 21), PosInf], [Num (- (10 ^ 21)), Num 5, NaN]],
      GetNoDataValue = NoDataValue (Some (Num 0)),
      element_as_compared = (\<lambda>v. v), scalar_as_compared = (\<lambda>s. s)\<rparr>"

definition example_raster :: "nat \<Rightarrow> dataset" where
  "example_raster k =
     \<lparr>GetGeoTransform = (- 120, 1 / 100, 0, 35, 0, - (1 / 100)),
      RasterXSize = 100, RasterYSize = 100,
      raster_bands = replicate k example_band\<rparr>"

definition example_files :: "nat \<Rightarrow> (string \<rightharpoonup> dataset)" where
  "example_files k = [''a/b/water/x.tif'' \<mapsto> example_raster k]"


section \<open>The outcome of a call, case by case\<close>

subsection \<open>The two loops\<close>

lemma load_bands_in_range:
  "\<forall>i \<in> set idxs. i < length (raster_bands ds) \<Longrightarrow>
   load_bands ds idxs =
     (concat (map (\<lambda>i. fst (load_band (raster_bands ds ! i))) idxs),
      Inr (map (\<lambda>i. snd (load_band (raster_bands ds ! i))) idxs))"
  by (induction idxs) (simp_all add: GetRasterBand_def split: prod.splits)

lemma load_bands_out_of_range:
  "\<forall>i \<in> set idxs. i < length (raster_bands ds) \<Longrightarrow> length (raster_bands ds) \<le> j \<Longrightarrow>
   load_bands ds (idxs @ j # rest) =
     (concat (map (\<lambda>i. fst (load_band (raster_bands ds ! i))) idxs), Inl (BandError (j + 1)))"
  by (induction idxs) (simp_all add: GetRasterBand_def split: prod.splits)

lemma range_split:
  assumes "int m < n"
  shows "range n = [0 ..< m] @ m # [Suc m ..< nat n]"
proof -
  from assms have lt: "m < nat n" by linarith
  then have "[0 ..< nat n] = [0 ..< m] @ [m ..< nat n]"
    using upt_add_eq_append [of 0 m "nat n - m"] by simp
  also from lt have "[m ..< nat n] = m # [Suc m ..< nat n]"
    by (rule upt_conv_Cons)
  finally show ?thesis by (simp add: range_def)
qed

lemma load_bands_range_ok:
  "n \<le> RasterCount ds \<Longrightarrow>
   load_bands ds (range n) =
     (concat (map (\<lambda>i. fst (load_band (raster_bands ds ! i))) (range n)),
      Inr (map (\<lambda>i. snd (load_band (raster_bands ds ! i))) (range n)))"
  by (rule load_bands_in_range) (auto simp: range_def RasterCount_def)

lemma load_bands_range_fail:
  "RasterCount ds < n \<Longrightarrow>
   load_bands ds (range n) =
     (concat (map (\<lambda>i. fst (load_band (raster_bands ds ! i))) [0 ..< length (raster_bands ds)]),
      Inl (BandError (length (raster_bands ds) + 1)))"
  unfolding RasterCount_def
  by (simp add: range_split load_bands_out_of_range)

lemma render_loop_ok:
  "\<forall>(i, ax) \<in> set xs. i < length lst_arrs \<and> i < length (opt_title opts) \<Longrightarrow>
   render_loop lay_type opts extent lst_arrs xs =
     (map (\<lambda>(i, ax). fst (render_axes lay_type opts extent lst_arrs i ax)) xs, None)"
  by (induction xs) (auto simp: render_axes_def Let_def split: prod.splits option.splits)

lemma render_loop_title_fail:
  assumes "length (opt_title opts) = 1" and "2 \<le> length lst_arrs"
  shows "\<exists>axe. render_loop lay_type opts extent lst_arrs
             ((0, blank_axes) # (Suc 0, blank_axes) # rest) = (axe, Some IndexError) \<and>
           length axe = Suc (Suc (length rest)) \<and>
           ax_title (axe ! 0) = Some (opt_title opts ! 0) \<and>
           ax_title (axe ! 1) = None \<and> ax_image (axe ! 1) \<noteq> None"
  using assms by (auto simp: render_axes_def Let_def blank_axes_def split: prod.splits)

lemma enumerate_replicate2:
  assumes "2 \<le> m"
  shows "enumerate 0 (replicate m b) = (0, b) # (Suc 0, b) # enumerate 2 (replicate (m - 2) b)"
proof -
  from assms obtain k where "m = Suc (Suc k)"
    by (metis add_2_eq_Suc le_Suc_ex)
  then show ?thesis by (simp add: numeral_2_eq_2)
qed

lemma opt_title_layer_options:
  "opt_title (layer_options lay_type cmap title) =
     (if lay_type = ''ENU'' then [''East'', ''North'', ''Up''] else title)"
  by (simp add: layer_options_def endswith_def startswith_def)

lemma title_long_enough:
  "1 \<le> n \<Longrightarrow> n \<le> 3 \<Longrightarrow> n = 1 \<or> lay_type = ''ENU'' \<Longrightarrow>
   nat n \<le> length (opt_title (layer_options lay_type cmap [t]))"
  by (auto simp: opt_title_layer_options)

subsection \<open>Calls that fail before the rendering loop\<close>

lemma plot_layer_open_fail:
  "fs path_layer = None \<Longrightarrow>
   plot_layer fs path_layer lay_type_arg cmap_arg n_bands_arg =
     \<lparr>printed = [], canvas = None, raised = Some OpenError\<rparr>"
  by (simp add: plot_layer_def)

lemma plot_layer_band_fail:
  "fs path_layer = Some ds \<Longrightarrow> RasterCount ds < resolve_n_bands ds n_bands_arg \<Longrightarrow>
   plot_layer fs path_layer lay_type_arg cmap_arg n_bands_arg =
     \<lparr>printed = concat (map (\<lambda>i. fst (load_band (raster_bands ds ! i)))
                         [0 ..< length (raster_bands ds)]),
      canvas = None,
      raised = Some (BandError (length (raster_bands ds) + 1))\<rparr>"
  by (simp add: plot_layer_def load_bands_range_fail)

lemma plot_layer_unsupported:
  "fs path_layer = Some ds \<Longrightarrow> resolve_n_bands ds n_bands_arg \<le> RasterCount ds \<Longrightarrow>
   4 \<le> resolve_n_bands ds n_bands_arg \<Longrightarrow>
   plot_layer fs path_layer lay_type_arg cmap_arg n_bands_arg =
     \<lparr>printed = concat (map (\<lambda>i. fst (load_band (raster_bands ds ! i)))
                         (range (resolve_n_bands ds n_bands_arg))),
      canvas = None,
      raised = Some UnsupportedBands\<rparr>"
  by (simp add: plot_layer_def load_bands_range_ok)

lemma plot_layer_no_bands:
  "fs path_layer = Some ds \<Longrightarrow> resolve_n_bands ds n_bands_arg \<le> 0 \<Longrightarrow>
   plot_layer fs path_layer lay_type_arg cmap_arg n_bands_arg =
     \<lparr>printed = [], canvas = Some empty_figure, raised = Some SubplotsError\<rparr>"
  by (simp add: plot_layer_def range_def subplots_def)

subsection \<open>Calls that reach the rendering loop\<close>

text \<open>
  With one to three bands, all of them in the dataset, and a title for each, the call
  completes; the lemma gives the whole figure.
\<close>

lemma plot_layer_rendered:
  fixes ds :: dataset and n_bands_arg :: "int option" and path_layer :: string
    and lay_type_arg :: "string option" and n lay_type opts
  defines "n \<equiv> resolve_n_bands ds n_bands_arg"
    and "lay_type \<equiv> resolve_lay_type path_layer lay_type_arg"
    and "opts \<equiv> layer_options lay_type Greys_r [basename lay_type]"
  assumes "fs path_layer = Some ds"
    and "1 \<le> n" and "n \<le> 3" and "n \<le> RasterCount ds"
    and "nat n \<le> length (opt_title opts)"
  shows "plot_layer fs path_layer lay_type_arg cmap_arg n_bands_arg =
     \<lparr>printed = concat (map (\<lambda>i. fst (load_band (raster_bands ds ! i))) (range n)),
      canvas = Some
        \<lparr>fig_nrows = 1, fig_ncols = n, fig_wspace = opt_wspace opts,
         fig_axes = map (\<lambda>i.
           \<lparr>ax_image = Some \<lparr>im_array = snd (load_band (raster_bands ds ! i)),
                              im_cmap = opt_cmap opts, im_vmin = opt_vmin opts,
                              im_vmax = opt_vmax opts, im_extent = extent_of ds\<rparr>,
            ax_colorbar = Some (if lay_type = ''ENU'' then ColorbarFormat3f
                                else if startswith lay_type ''water''
                                     then ColorbarTicks [opt_vmin opts, opt_vmax opts]
                                else ColorbarPlain),
            ax_title = Some (opt_title opts ! i),
            ax_grid = Some False,
            ax_ylabel = (if i = 0 then Some ''latitude'' else None),
            ax_xlabel = (if i = nat (n div 2) then Some ''longitude'' else None)\<rparr>)
           (range n)\<rparr>,
      raised = None\<rparr>"
proof -
  let ?arrs = "map (\<lambda>i. snd (load_band (raster_bands ds ! i))) (range n)"
  let ?ext = "extent_of ds"
  let ?axs = "replicate (nat n) blank_axes"
  let ?final = "\<lambda>i.
           \<lparr>ax_image = Some \<lparr>im_array = snd (load_band (raster_bands ds ! i)),
                              im_cmap = opt_cmap opts, im_vmin = opt_vmin opts,
                              im_vmax = opt_vmax opts, im_extent = extent_of ds\<rparr>,
            ax_colorbar = Some (if lay_type = ''ENU'' then ColorbarFormat3f
                                else if startswith lay_type ''water''
                                     then ColorbarTicks [opt_vmin opts, opt_vmax opts]
                                else ColorbarPlain),
            ax_title = Some (opt_title opts ! i),
            ax_grid = Some False,
            ax_ylabel = (if i = 0 then Some ''latitude'' else None),
            ax_xlabel = (if i = nat (n div 2) then Some ''longitude'' else None)\<rparr>"
  have lb: "load_bands ds (range n) =
      (concat (map (\<lambda>i. fst (load_band (raster_bands ds ! i))) (range n)), Inr ?arrs)"
    using assms(7) by (rule load_bands_range_ok)
  have sp: "subplots n 1 =
      (\<lparr>fig_nrows = 1, fig_ncols = n, fig_wspace = None, fig_axes = ?axs\<rparr>, None)"
    using assms(5) by (simp add: subplots_def)
  have rl: "render_loop lay_type opts ?ext ?arrs (enumerate 0 ?axs) =
      (map (\<lambda>(i, ax). fst (render_axes lay_type opts ?ext ?arrs i ax)) (enumerate 0 ?axs), None)"
    by (rule render_loop_ok) (use assms(8) in \<open>auto simp: in_set_enumerate_eq range_def\<close>)
  let ?axe = "map (\<lambda>(i, ax). fst (render_axes lay_type opts ?ext ?arrs i ax))
                (enumerate 0 ?axs)"
  have yl: "set_ylabel ?axe 0 ''latitude'' =
      Inr (?axe[0 := (?axe ! 0)\<lparr>ax_ylabel := Some ''latitude''\<rparr>])"
    using assms(5) by (simp add: set_ylabel_def Let_def)
  let ?axe1 = "?axe[0 := (?axe ! 0)\<lparr>ax_ylabel := Some ''latitude''\<rparr>]"
  have xl: "set_xlabel ?axe1 (n div 2) ''longitude'' =
      Inr (?axe1[nat (n div 2) := (?axe1 ! nat (n div 2))\<lparr>ax_xlabel := Some ''longitude''\<rparr>])"
    using assms(5) by (simp add: set_xlabel_def Let_def)
  let ?axe2 = "?axe1[nat (n div 2) :=
                 (?axe1 ! nat (n div 2))\<lparr>ax_xlabel := Some ''longitude''\<rparr>]"
  have fin: "?axe2 = map ?final (range n)"
  proof (rule nth_equalityI)
    show "length ?axe2 = length (map ?final (range n))"
      by (simp add: range_def)
  next
    fix i assume "i < length ?axe2"
    then have i: "i < nat n" by simp
    with assms(8) have it: "i < length (opt_title opts)" by simp
    from i it assms(5) show "?axe2 ! i = map ?final (range n) ! i"
      by (auto simp: nth_list_update nth_enumerate_eq render_axes_def Let_def range_def
            blank_axes_def)
  qed
  have ws: "(case opt_wspace opts of
               None \<Rightarrow> \<lparr>fig_nrows = 1, fig_ncols = n, fig_wspace = None, fig_axes = ?axs\<rparr>
             | Some w \<Rightarrow> \<lparr>fig_nrows = 1, fig_ncols = n, fig_wspace = Some w, fig_axes = ?axs\<rparr>)
      = \<lparr>fig_nrows = 1, fig_ncols = n, fig_wspace = opt_wspace opts, fig_axes = ?axs\<rparr>"
    by (cases "opt_wspace opts") simp_all
  show ?thesis
    unfolding plot_layer_def Let_def
    apply (simp only: assms(4) option.case)
    apply (fold n_def lay_type_def)
    apply (fold opts_def)
    using assms(6)
    apply (simp only: lb sp ws rl yl xl fin option.case sum.case prod.case figure.simps)
    apply simp
    done
qed

text \<open>
  With two or three bands and a layer type other than \<open>ENU\<close> the title list has one
  entry, and the loop stops at the second axes, after its image and colorbar are drawn.
\<close>

lemma plot_layer_title_fail:
  fixes ds :: dataset and n_bands_arg :: "int option" and path_layer :: string
    and lay_type_arg :: "string option" and n lay_type
  defines "n \<equiv> resolve_n_bands ds n_bands_arg"
    and "lay_type \<equiv> resolve_lay_type path_layer lay_type_arg"
  assumes "fs path_layer = Some ds"
    and "2 \<le> n" and "n \<le> 3" and "n \<le> RasterCount ds"
    and "lay_type \<noteq> ''ENU''"
  shows "\<exists>fig. canvas (plot_layer fs path_layer lay_type_arg cmap_arg n_bands_arg) = Some fig \<and>
           raised (plot_layer fs path_layer lay_type_arg cmap_arg n_bands_arg) = Some IndexError \<and>
           length (fig_axes fig) = nat n \<and>
           ax_title (fig_axes fig ! 0) = Some (basename lay_type) \<and>
           ax_title (fig_axes fig ! 1) = None \<and> ax_image (fig_axes fig ! 1) \<noteq> None"
proof -
  let ?opts = "layer_options lay_type Greys_r [basename lay_type]"
  let ?arrs = "map (\<lambda>i. snd (load_band (raster_bands ds ! i))) (range n)"
  let ?axs = "replicate (nat n) blank_axes"
  have lb: "load_bands ds (range n) =
      (concat (map (\<lambda>i. fst (load_band (raster_bands ds ! i))) (range n)), Inr ?arrs)"
    using assms(6) by (rule load_bands_range_ok)
  have sp: "subplots n 1 =
      (\<lparr>fig_nrows = 1, fig_ncols = n, fig_wspace = None, fig_axes = ?axs\<rparr>, None)"
    using assms(4) by (simp add: subplots_def)
  have ti: "opt_title ?opts = [basename lay_type]"
    using assms(7) by (simp add: opt_title_layer_options)
  then have tl: "length (opt_title ?opts) = 1" by simp
  have en: "enumerate 0 ?axs =
      (0, blank_axes) # (Suc 0, blank_axes) # enumerate 2 (replicate (nat n - 2) blank_axes)"
    using assms(4) by (intro enumerate_replicate2) linarith
  have "2 \<le> length ?arrs"
    using assms(4) by (simp add: range_def)
  with tl obtain axe where rl: "render_loop lay_type ?opts (extent_of ds) ?arrs (enumerate 0 ?axs) =
      (axe, Some IndexError)"
    and ax: "length axe = Suc (Suc (length (enumerate 2 (replicate (nat n - 2) blank_axes))))"
      "ax_title (axe ! 0) = Some (opt_title ?opts ! 0)"
      "ax_title (axe ! 1) = None" "ax_image (axe ! 1) \<noteq> None"
    unfolding en using render_loop_title_fail by blast
  have ws: "fig_axes (case opt_wspace ?opts of
               None \<Rightarrow> \<lparr>fig_nrows = 1, fig_ncols = n, fig_wspace = None, fig_axes = ?axs\<rparr>
             | Some w \<Rightarrow> \<lparr>fig_nrows = 1, fig_ncols = n, fig_wspace = Some w, fig_axes = ?axs\<rparr>)
      = ?axs"
    by (cases "opt_wspace ?opts") simp_all
  from assms(4) have len: "length axe = nat n"
    unfolding ax(1) by simp
  show ?thesis
    unfolding plot_layer_def Let_def
    apply (simp only: assms(3) option.case)
    apply (fold n_def lay_type_def)
    using assms(5) len ax(2,3,4)
    apply (simp only: lb sp ws rl option.case sum.case prod.case figure.simps)
    apply (simp add: ti)
    done
qed

subsection \<open>When a call completes\<close>

lemma plot_layer_completes_iff:
  assumes "fs path_layer = Some ds"
  shows "raised (plot_layer fs path_layer lay_type_arg cmap_arg n_bands_arg) = None \<longleftrightarrow>
     1 \<le> resolve_n_bands ds n_bands_arg \<and> resolve_n_bands ds n_bands_arg \<le> 3 \<and>
     resolve_n_bands ds n_bands_arg \<le> RasterCount ds \<and>
     (resolve_n_bands ds n_bands_arg = 1 \<or> resolve_lay_type path_layer lay_type_arg = ''ENU'')"
proof -
  let ?n = "resolve_n_bands ds n_bands_arg"
  let ?l = "resolve_lay_type path_layer lay_type_arg"
  consider (missing) "RasterCount ds < ?n"
    | (none) "?n \<le> RasterCount ds" "?n \<le> 0"
    | (many) "?n \<le> RasterCount ds" "4 \<le> ?n"
    | (title) "?n \<le> RasterCount ds" "2 \<le> ?n" "?n \<le> 3" "?l \<noteq> ''ENU''"
    | (ok) "?n \<le> RasterCount ds" "1 \<le> ?n" "?n \<le> 3" "?n = 1 \<or> ?l = ''ENU''"
    by linarith
  then show ?thesis
  proof cases
    case missing
    then show ?thesis
      using plot_layer_band_fail [where fs = fs and path_layer = path_layer, OF assms missing]
      by simp
  next
    case none
    then show ?thesis
      using plot_layer_no_bands [where fs = fs and path_layer = path_layer, OF assms none(2)]
      by simp
  next
    case many
    then show ?thesis
      using plot_layer_unsupported [where fs = fs and path_layer = path_layer, OF assms many]
      by simp
  next
    case title
    then show ?thesis
      using plot_layer_title_fail [where fs = fs and path_layer = path_layer,
          OF assms title(2,3,1,4)]
      by auto
  next
    case ok
    have "nat ?n \<le> length (opt_title (layer_options ?l Greys_r [basename ?l]))"
      using ok(2,3,4) by (rule title_long_enough)
    from plot_layer_rendered [where fs = fs and path_layer = path_layer,
        OF assms ok(2,3,1) this] ok
    show ?thesis by simp
  qed
qed

subsection \<open>The example rasters\<close>

lemma example_files_open: "example_files k ''a/b/water/x.tif'' = Some (example_raster k)"
  by (simp add: example_files_def)

lemma RasterCount_example: "RasterCount (example_raster k) = int k"
  by (simp add: RasterCount_def example_raster_def)

lemma resolve_n_bands_example:
  "resolve_n_bands (example_raster k) None = int k"
  "resolve_n_bands (example_raster k) (Some 0) = int k"
  "n \<noteq> 0 \<Longrightarrow> resolve_n_bands (example_raster k) (Some n) = n"
  by (simp_all add: resolve_n_bands_def RasterCount_example)

lemma length_bands_example: "length (raster_bands (example_raster k)) = k"
  by (simp add: example_raster_def)

subsection \<open>What a completed call leaves\<close>

text \<open>The mask of a band, whichever way the no-data lookup went.\<close>

lemma load_band_mask:
  "snd (load_band raster) =
     masked_where
       (map (map (\<lambda>v.
          np_greater (element_as_compared raster v) (scalar_as_compared raster (Num (10 ^ 20))) \<or>
          (\<exists>s. GetNoDataValue raster = NoDataValue (Some s) \<and>
               np_equal (element_as_compared raster v) (scalar_as_compared raster s))))
          (ReadAsArray raster))
       (ReadAsArray raster)"
proof (cases "GetNoDataValue raster")
  case NoDataRaises
  then show ?thesis
    by (simp add: load_band_def Let_def greater_1e20_def [abs_def])
next
  case (NoDataValue NoData)
  then show ?thesis
    by (cases NoData) (simp_all add: load_band_def Let_def greater_1e20_def equal_NoData_def)
qed

text \<open>
  A 32-bit float band, whose threshold is \<open>1e20\<close> as a 32-bit float: the pixel equal to
  it is not masked, the next 32-bit float above it is.
\<close>

lemma load_band_float32_threshold:
  assumes "scalar_as_compared raster (Num (10 ^ 20)) = Num 100000002004087734272"
    and "element_as_compared raster = (\<lambda>v. v)"
    and "GetNoDataValue raster = NoDataValue None"
    and "ReadAsArray raster = [[Num 100000002004087734272, Num 100000010800180756480]]"
  shows "ma_mask (snd (load_band raster)) = [[False, True]]"
  using assms by (simp add: load_band_mask masked_where_def)

lemma map_nth_take:
  "k \<le> length xs \<Longrightarrow> map (\<lambda>i. f (xs ! i)) [0 ..< k] = map f (take k xs)"
  by (rule nth_equalityI) simp_all

text \<open>A call that raises nothing is one of the calls above; its figure is known.\<close>

lemma plot_layer_completed:
  fixes ds :: dataset and n_bands_arg :: "int option" and path_layer :: string
    and lay_type_arg :: "string option" and n lay_type opts
  defines "n \<equiv> resolve_n_bands ds n_bands_arg"
    and "lay_type \<equiv> resolve_lay_type path_layer lay_type_arg"
    and "opts \<equiv> layer_options lay_type Greys_r [basename lay_type]"
  assumes "fs path_layer = Some ds"
    and "raised (plot_layer fs path_layer lay_type_arg cmap_arg n_bands_arg) = None"
  shows "1 \<le> n \<and> n \<le> 3 \<and> n \<le> RasterCount ds \<and> nat n \<le> length (opt_title opts) \<and>
     canvas (plot_layer fs path_layer lay_type_arg cmap_arg n_bands_arg) = Some
        \<lparr>fig_nrows = 1, fig_ncols = n, fig_wspace = opt_wspace opts,
         fig_axes = map (\<lambda>i.
           \<lparr>ax_image = Some \<lparr>im_array = snd (load_band (raster_bands ds ! i)),
                              im_cmap = opt_cmap opts, im_vmin = opt_vmin opts,
                              im_vmax = opt_vmax opts, im_extent = extent_of ds\<rparr>,
            ax_colorbar = Some (if lay_type = ''ENU'' then ColorbarFormat3f
                                else if startswith lay_type ''water''
                                     then ColorbarTicks [opt_vmin opts, opt_vmax opts]
                                else ColorbarPlain),
            ax_title = Some (opt_title opts ! i),
            ax_grid = Some False,
            ax_ylabel = (if i = 0 then Some ''latitude'' else None),
            ax_xlabel = (if i = nat (n div 2) then Some ''longitude'' else None)\<rparr>)
           (range n)\<rparr>"
proof -
  from assms(5) have c: "1 \<le> n" "n \<le> 3" "n \<le> RasterCount ds" "n = 1 \<or> lay_type = ''ENU''"
    unfolding n_def lay_type_def
    using plot_layer_completes_iff [where fs = fs and path_layer = path_layer, OF assms(4)]
    by blast+
  have t: "nat n \<le> length (opt_title opts)"
    unfolding opts_def using c(1,2,4) by (rule title_long_enough)
  from plot_layer_rendered [where fs = fs and path_layer = path_layer,
      OF assms(4) c(1,2,3)[unfolded n_def] t[unfolded opts_def lay_type_def n_def]] c(1,2,3) t
  show ?thesis
    unfolding n_def lay_type_def opts_def by simp
qed

subsection \<open>Paths\<close>

lemma path_head_nested:
  assumes "CHR ''/'' \<notin> set fname"
  shows "path_head (dir @ ''/'' @ seg @ ''/'' @ fname) = dir @ ''/'' @ seg @ ''/''"
proof -
  have "dropWhile (\<lambda>c. c \<noteq> CHR ''/'') (rev fname @ CHR ''/'' # rev seg @ CHR ''/'' # rev dir) =
      CHR ''/'' # rev seg @ CHR ''/'' # rev dir"
    using assms by (auto simp: dropWhile_append3)
  then show ?thesis by (simp add: path_head_def)
qed

lemma dirname_nested:
  assumes "CHR ''/'' \<notin> set fname" and "CHR ''/'' \<notin> set seg" and "seg \<noteq> []"
  shows "dirname (dir @ ''/'' @ seg @ ''/'' @ fname) = dir @ ''/'' @ seg"
proof -
  let ?head = "dir @ ''/'' @ seg @ ''/''"
  from assms(3) obtain c cs where seg: "rev seg = c # cs"
    by (cases "rev seg") auto
  then have "c \<in> set seg" by (metis list.set_intros(1) set_rev)
  with assms(2) have c: "c \<noteq> CHR ''/''" by auto
  from \<open>c \<in> set seg\<close> have "c \<in> set ?head" by simp
  moreover have "set (replicate (length ?head) (CHR ''/'')) \<subseteq> {CHR ''/''}" by auto
  ultimately have ne: "?head \<noteq> replicate (length ?head) (CHR ''/'')"
    using c by (metis singletonD subsetD)
  have rs: "rstrip_sep ?head = dir @ ''/'' @ seg"
    using seg c by (simp add: rstrip_sep_def)
  have ph: "path_head (dir @ ''/'' @ seg @ ''/'' @ fname) = ?head"
    using assms(1) by (rule path_head_nested)
  show ?thesis
    unfolding dirname_def Let_def ph using ne rs by simp
qed

lemma basename_last_segment:
  assumes "CHR ''/'' \<notin> set seg"
  shows "basename (dir @ ''/'' @ seg) = seg"
proof -
  have "takeWhile (\<lambda>c. c \<noteq> CHR ''/'') (rev seg @ CHR ''/'' # rev dir) = rev seg"
    using assms by (auto simp: takeWhile_tail)
  then show ?thesis by (simp add: basename_def)
qed

lemma resolve_lay_type_dirname:
  "resolve_lay_type path_layer (Some (dirname path_layer)) = dirname path_layer"
  by (simp add: resolve_lay_type_def)

subsection \<open>A no-data lookup that raises\<close>








section \<open>The claims\<close>

text \<open>
  C9. The \<open>cmap\<close> argument has no effect: two calls that differ only in the colormap
  passed leave the same printed text, the same figure and the same exception, since the
  variable is set to the grayscale colormap before its first use.
\<close>

theorem cmap_argument_ignored:
  "plot_layer fs path_layer lay_type cmap1 n_bands = plot_layer fs path_layer lay_type cmap2 n_bands"
  by (simp add: plot_layer_def)

text \<open>
  C4. For a raster with geotransform \<open>(x0, dx, _, y0, _, dy)\<close> and size \<open>W\<close> by \<open>H\<close>
  the display extent is \<open>[x0, x0 + W * dx, y0 + H * dy, y0]\<close>, whatever the two rotation
  terms are, and every image of a completed call is drawn over that extent.
\<close>

theorem extent_from_geotransform:
  assumes "fs path_layer = Some ds"
    and "GetGeoTransform ds = (x0, dx, rx, y0, ry, dy)"
    and "RasterXSize ds = W" and "RasterYSize ds = H"
  shows "extent_of ds = [x0, x0 + real_of_int W * dx, y0 + real_of_int H * dy, y0] \<and>
         (raised (plot_layer fs path_layer lay_type cmap n_bands) = None \<longrightarrow>
          (\<exists>fig. canvas (plot_layer fs path_layer lay_type cmap n_bands) = Some fig \<and>
             fig_axes fig \<noteq> [] \<and>
             (\<forall>ax \<in> set (fig_axes fig). \<exists>im. ax_image ax = Some im \<and>
                im_extent im = [x0, x0 + real_of_int W * dx, y0 + real_of_int H * dy, y0])))"
proof (intro conjI impI)
  show ext: "extent_of ds = [x0, x0 + real_of_int W * dx, y0 + real_of_int H * dy, y0]"
    using assms(2,3,4) by (simp add: extent_of_def)
  assume completes: "raised (plot_layer fs path_layer lay_type cmap n_bands) = None"
  let ?n = "resolve_n_bands ds n_bands"
  let ?l = "resolve_lay_type path_layer lay_type"
  from completes have c: "1 \<le> ?n" "?n \<le> 3" "?n \<le> RasterCount ds" "?n = 1 \<or> ?l = ''ENU''"
    using plot_layer_completes_iff [where fs = fs and path_layer = path_layer, OF assms(1)]
    by blast+
  have "nat ?n \<le> length (opt_title (layer_options ?l Greys_r [basename ?l]))"
    using c(1,2,4) by (rule title_long_enough)
  from plot_layer_rendered [where fs = fs and path_layer = path_layer, OF assms(1) c(1,2,3) this]
  show "\<exists>fig. canvas (plot_layer fs path_layer lay_type cmap n_bands) = Some fig \<and>
           fig_axes fig \<noteq> [] \<and>
           (\<forall>ax \<in> set (fig_axes fig). \<exists>im. ax_image ax = Some im \<and>
              im_extent im = [x0, x0 + real_of_int W * dx, y0 + real_of_int H * dy, y0])"
    using c(1) by (auto simp: ext range_def)
qed

theorem extent_from_geotransform_witness:
  "example_files 1 ''a/b/water/x.tif'' = Some (example_raster 1) \<and>
   GetGeoTransform (example_raster 1) = (- 120, 1 / 100, 0, 35, 0, - (1 / 100)) \<and>
   RasterXSize (example_raster 1) = 100 \<and> RasterYSize (example_raster 1) = 100 \<and>
   extent_of (example_raster 1) = [- 120, - 119, 34, 35] \<and>
   raised (plot_layer (example_files 1) ''a/b/water/x.tif'' None None None) = None \<and>
   (\<exists>fig. canvas (plot_layer (example_files 1) ''a/b/water/x.tif'' None None None) = Some fig \<and>
      fig_axes fig \<noteq> [] \<and>
      (\<forall>ax \<in> set (fig_axes fig). \<exists>im. ax_image ax = Some im \<and>
         im_extent im = [- 120, - 119, 34, 35]))"
proof -
  have o: "example_files 1 ''a/b/water/x.tif'' = Some (example_raster 1)"
    by (rule example_files_open)
  have g: "GetGeoTransform (example_raster 1) = (- 120, 1 / 100, 0, 35, 0, - (1 / 100))"
    and w: "RasterXSize (example_raster 1) = 100" and h: "RasterYSize (example_raster 1) = 100"
    by (simp_all add: example_raster_def)
  have r: "raised (plot_layer (example_files 1) ''a/b/water/x.tif'' None None None) = None"
    using plot_layer_completes_iff [where fs = "example_files 1" and lay_type_arg = None
        and cmap_arg = None and n_bands_arg = None, OF o]
    by (simp add: resolve_n_bands_example RasterCount_example)
  from extent_from_geotransform [where fs = "example_files 1" and lay_type = None
      and cmap = None and n_bands = None, OF o g w h] o g w h r
  show ?thesis by simp
qed

text \<open>
  C2, as the code has it. With a band count of 4 or more the call fails and no figure is
  created. The bands are read before the count is checked: when the dataset has all the
  bands asked for, the exception is the one for an unsupported band count, otherwise it
  is the one raised on reading the first band that is missing.
\<close>

theorem unsupported_band_count:
  assumes "fs path_layer = Some ds"
    and "4 \<le> resolve_n_bands ds n_bands"
  shows "canvas (plot_layer fs path_layer lay_type cmap n_bands) = None \<and>
         raised (plot_layer fs path_layer lay_type cmap n_bands) =
           Some (if resolve_n_bands ds n_bands \<le> RasterCount ds then UnsupportedBands
                 else BandError (length (raster_bands ds) + 1))"
proof (cases "resolve_n_bands ds n_bands \<le> RasterCount ds")
  case True
  with plot_layer_unsupported [where fs = fs and path_layer = path_layer, OF assms(1) True assms(2)]
  show ?thesis by simp
next
  case False
  then have "RasterCount ds < resolve_n_bands ds n_bands" by simp
  from plot_layer_band_fail [where fs = fs and path_layer = path_layer, OF assms(1) this] False
  show ?thesis by simp
qed

theorem unsupported_band_count_witness:
  "example_files 5 ''a/b/water/x.tif'' = Some (example_raster 5) \<and>
   4 \<le> resolve_n_bands (example_raster 5) None \<and>
   canvas (plot_layer (example_files 5) ''a/b/water/x.tif'' None None None) = None \<and>
   raised (plot_layer (example_files 5) ''a/b/water/x.tif'' None None None) =
     Some UnsupportedBands"
proof -
  have o: "example_files 5 ''a/b/water/x.tif'' = Some (example_raster 5)"
    by (rule example_files_open)
  have n: "4 \<le> resolve_n_bands (example_raster 5) None"
    by (simp add: resolve_n_bands_example)
  from unsupported_band_count [where fs = "example_files 5" and lay_type = None
      and cmap = None, OF o n] o n
  show ?thesis by (simp add: resolve_n_bands_example RasterCount_example)
qed

text \<open>
  C2 as stated fails: with 5 bands asked of a raster of 3, the call fails on reading
  band 4 and not with the exception for an unsupported band count.
\<close>

theorem unsupported_band_count_counterexample:
  "example_files 3 ''a/b/water/x.tif'' = Some (example_raster 3) \<and>
   4 \<le> resolve_n_bands (example_raster 3) (Some 5) \<and>
   raised (plot_layer (example_files 3) ''a/b/water/x.tif'' None None (Some 5)) =
     Some (BandError 4) \<and>
   raised (plot_layer (example_files 3) ''a/b/water/x.tif'' None None (Some 5)) \<noteq>
     Some UnsupportedBands"
proof -
  have o: "example_files 3 ''a/b/water/x.tif'' = Some (example_raster 3)"
    by (rule example_files_open)
  have n: "RasterCount (example_raster 3) < resolve_n_bands (example_raster 3) (Some 5)"
    by (simp add: resolve_n_bands_example RasterCount_example)
  from plot_layer_band_fail [where fs = "example_files 3" and lay_type_arg = None
      and cmap_arg = None, OF o n] o
  show ?thesis by (simp add: resolve_n_bands_example length_bands_example)
qed

text \<open>
  C3, as the code has it. With a band count of 1, 2 or 3, all the bands asked for being in
  the dataset, and either a single band or the layer type \<open>ENU\<close>, the call completes
  and its figure has one row and as many columns and rendered, titled subplots as bands.
\<close>

theorem subplot_layout:
  assumes "fs path_layer = Some ds"
    and "1 \<le> resolve_n_bands ds n_bands" and "resolve_n_bands ds n_bands \<le> 3"
    and "resolve_n_bands ds n_bands \<le> RasterCount ds"
    and "resolve_n_bands ds n_bands = 1 \<or> resolve_lay_type path_layer lay_type = ''ENU''"
  shows "raised (plot_layer fs path_layer lay_type cmap n_bands) = None \<and>
         (\<exists>fig. canvas (plot_layer fs path_layer lay_type cmap n_bands) = Some fig \<and>
            fig_nrows fig = 1 \<and> fig_ncols fig = resolve_n_bands ds n_bands \<and>
            int (length (fig_axes fig)) = resolve_n_bands ds n_bands \<and>
            (\<forall>ax \<in> set (fig_axes fig). ax_image ax \<noteq> None \<and> ax_title ax \<noteq> None))"
proof -
  have r: "raised (plot_layer fs path_layer lay_type cmap n_bands) = None"
    using assms(2-5) plot_layer_completes_iff [where fs = fs and path_layer = path_layer, OF assms(1)]
    by blast
  from plot_layer_completed [where fs = fs and path_layer = path_layer, OF assms(1) r] r
  show ?thesis by (auto simp: range_def)
qed

theorem subplot_layout_witness:
  "example_files 3 ''a/b/water/x.tif'' = Some (example_raster 3) \<and>
   1 \<le> resolve_n_bands (example_raster 3) None \<and>
   resolve_n_bands (example_raster 3) None \<le> 3 \<and>
   resolve_n_bands (example_raster 3) None \<le> RasterCount (example_raster 3) \<and>
   resolve_lay_type ''a/b/water/x.tif'' (Some ''ENU'') = ''ENU'' \<and>
   raised (plot_layer (example_files 3) ''a/b/water/x.tif'' (Some ''ENU'') None None) = None \<and>
   (\<exists>fig. canvas (plot_layer (example_files 3) ''a/b/water/x.tif'' (Some ''ENU'') None None) =
            Some fig \<and>
      fig_nrows fig = 1 \<and> fig_ncols fig = 3 \<and> length (fig_axes fig) = 3)"
proof -
  have o: "example_files 3 ''a/b/water/x.tif'' = Some (example_raster 3)"
    by (rule example_files_open)
  have n: "1 \<le> resolve_n_bands (example_raster 3) None"
      "resolve_n_bands (example_raster 3) None \<le> 3"
      "resolve_n_bands (example_raster 3) None \<le> RasterCount (example_raster 3)"
    by (simp_all add: resolve_n_bands_example RasterCount_example)
  have l: "resolve_lay_type ''a/b/water/x.tif'' (Some ''ENU'') = ''ENU''"
    by (simp add: resolve_lay_type_def)
  then have l': "resolve_n_bands (example_raster 3) None = 1 \<or>
      resolve_lay_type ''a/b/water/x.tif'' (Some ''ENU'') = ''ENU''" ..
  from subplot_layout [where fs = "example_files 3" and cmap = None, OF o n l'] o n l
  show ?thesis by (auto simp: resolve_n_bands_example)
qed

text \<open>
  C3 as stated fails: with 3 bands asked of a raster of 2 the band count is 3 and the
  call fails on reading band 3, before any figure exists.
\<close>

theorem subplot_layout_counterexample:
  "example_files 2 ''a/b/water/x.tif'' = Some (example_raster 2) \<and>
   resolve_n_bands (example_raster 2) (Some 3) = 3 \<and>
   raised (plot_layer (example_files 2) ''a/b/water/x.tif'' (Some ''ENU'') None (Some 3)) =
     Some (BandError 3) \<and>
   canvas (plot_layer (example_files 2) ''a/b/water/x.tif'' (Some ''ENU'') None (Some 3)) = None"
proof -
  have o: "example_files 2 ''a/b/water/x.tif'' = Some (example_raster 2)"
    by (rule example_files_open)
  have n: "RasterCount (example_raster 2) < resolve_n_bands (example_raster 2) (Some 3)"
    by (simp add: resolve_n_bands_example RasterCount_example)
  from plot_layer_band_fail [where fs = "example_files 2" and lay_type_arg = "Some ''ENU''"
      and cmap_arg = None, OF o n] o
  show ?thesis by (simp add: resolve_n_bands_example length_bands_example)
qed

text \<open>
  C5, as the code has it. With the layer type \<open>ENU\<close> the title list is
  \<open>East, North, Up\<close>; the call completes exactly when the band count is 1, 2 or 3 and
  the bands are in the dataset, a band count of 3 not being required, and the subplots
  are then titled by the first titles of the list, in order.
\<close>

theorem enu_titles:
  assumes "fs path_layer = Some ds"
    and "resolve_lay_type path_layer lay_type = ''ENU''"
  shows "opt_title (layer_options (resolve_lay_type path_layer lay_type) Greys_r
                      [basename (resolve_lay_type path_layer lay_type)]) =
           [''East'', ''North'', ''Up''] \<and>
         (raised (plot_layer fs path_layer lay_type cmap n_bands) = None \<longleftrightarrow>
            1 \<le> resolve_n_bands ds n_bands \<and> resolve_n_bands ds n_bands \<le> 3 \<and>
            resolve_n_bands ds n_bands \<le> RasterCount ds) \<and>
         (raised (plot_layer fs path_layer lay_type cmap n_bands) = None \<longrightarrow>
            (\<exists>fig. canvas (plot_layer fs path_layer lay_type cmap n_bands) = Some fig \<and>
               map ax_title (fig_axes fig) =
                 map Some (take (nat (resolve_n_bands ds n_bands)) [''East'', ''North'', ''Up''])))"
proof (intro conjI impI)
  show t: "opt_title (layer_options (resolve_lay_type path_layer lay_type) Greys_r
                      [basename (resolve_lay_type path_layer lay_type)]) =
           [''East'', ''North'', ''Up'']"
    using assms(2) by (simp add: opt_title_layer_options)
  show "raised (plot_layer fs path_layer lay_type cmap n_bands) = None \<longleftrightarrow>
            1 \<le> resolve_n_bands ds n_bands \<and> resolve_n_bands ds n_bands \<le> 3 \<and>
            resolve_n_bands ds n_bands \<le> RasterCount ds"
    using assms(2) plot_layer_completes_iff [where fs = fs and path_layer = path_layer, OF assms(1)]
    by simp
  assume r: "raised (plot_layer fs path_layer lay_type cmap n_bands) = None"
  from plot_layer_completed [where fs = fs and path_layer = path_layer, OF assms(1) r]
  show "\<exists>fig. canvas (plot_layer fs path_layer lay_type cmap n_bands) = Some fig \<and>
               map ax_title (fig_axes fig) =
                 map Some (take (nat (resolve_n_bands ds n_bands)) [''East'', ''North'', ''Up''])"
    by (simp add: t range_def o_def map_nth_take)
qed

theorem enu_titles_witness:
  "example_files 3 ''a/b/water/x.tif'' = Some (example_raster 3) \<and>
   resolve_lay_type ''a/b/water/x.tif'' (Some ''ENU'') = ''ENU'' \<and>
   raised (plot_layer (example_files 3) ''a/b/water/x.tif'' (Some ''ENU'') None None) = None \<and>
   (\<exists>fig. canvas (plot_layer (example_files 3) ''a/b/water/x.tif'' (Some ''ENU'') None None) =
            Some fig \<and>
      map ax_title (fig_axes fig) = [Some ''East'', Some ''North'', Some ''Up''])"
proof -
  have o: "example_files 3 ''a/b/water/x.tif'' = Some (example_raster 3)"
    by (rule example_files_open)
  have l: "resolve_lay_type ''a/b/water/x.tif'' (Some ''ENU'') = ''ENU''"
    by (simp add: resolve_lay_type_def)
  from enu_titles [where fs = "example_files 3" and cmap = None and n_bands = None, OF o l] o l
  show ?thesis by (simp add: resolve_n_bands_example RasterCount_example)
qed

text \<open>
  C5 as stated fails: a call with the layer type \<open>ENU\<close> on a raster of 2 bands
  completes.
\<close>

theorem enu_band_count_counterexample:
  "resolve_lay_type ''a/b/water/x.tif'' (Some ''ENU'') = ''ENU'' \<and>
   resolve_n_bands (example_raster 2) None = 2 \<and>
   raised (plot_layer (example_files 2) ''a/b/water/x.tif'' (Some ''ENU'') None None) = None \<and>
   canvas (plot_layer (example_files 2) ''a/b/water/x.tif'' (Some ''ENU'') None None) \<noteq> None"
proof -
  have o: "example_files 2 ''a/b/water/x.tif'' = Some (example_raster 2)"
    by (rule example_files_open)
  have l: "resolve_lay_type ''a/b/water/x.tif'' (Some ''ENU'') = ''ENU''"
    by (simp add: resolve_lay_type_def)
  have r: "raised (plot_layer (example_files 2) ''a/b/water/x.tif'' (Some ''ENU'') None None) = None"
    using plot_layer_completes_iff [where fs = "example_files 2" and lay_type_arg = "Some ''ENU''"
        and cmap_arg = None and n_bands_arg = None, OF o] l
    by (simp add: resolve_n_bands_example RasterCount_example)
  from plot_layer_completed [where fs = "example_files 2", OF o r] l r
  show ?thesis by (simp add: resolve_n_bands_example)
qed

text \<open>
  C8, as the code has it. With a band count of 2 or 3 and a layer type other than
  \<open>ENU\<close> the title list has length 1 and the call never completes: when the dataset
  has the bands asked for, the rendering loop raises an index error at the title of the
  second subplot, the first being titled and the second already drawn; otherwise the call
  has failed before, on reading the first band that is missing.
\<close>

theorem multiband_title_failure:
  assumes "fs path_layer = Some ds"
    and "2 \<le> resolve_n_bands ds n_bands" and "resolve_n_bands ds n_bands \<le> 3"
    and "resolve_lay_type path_layer lay_type \<noteq> ''ENU''"
  shows "length (opt_title (layer_options (resolve_lay_type path_layer lay_type) Greys_r
                   [basename (resolve_lay_type path_layer lay_type)])) = 1 \<and>
         raised (plot_layer fs path_layer lay_type cmap n_bands) =
           Some (if resolve_n_bands ds n_bands \<le> RasterCount ds then IndexError
                 else BandError (length (raster_bands ds) + 1)) \<and>
         (resolve_n_bands ds n_bands \<le> RasterCount ds \<longrightarrow>
            (\<exists>fig. canvas (plot_layer fs path_layer lay_type cmap n_bands) = Some fig \<and>
               ax_title (fig_axes fig ! 0) =
                 Some (basename (resolve_lay_type path_layer lay_type)) \<and>
               ax_image (fig_axes fig ! 1) \<noteq> None \<and> ax_title (fig_axes fig ! 1) = None))"
proof (cases "resolve_n_bands ds n_bands \<le> RasterCount ds")
  case True
  from plot_layer_title_fail [where fs = fs and path_layer = path_layer and cmap_arg = cmap,
      OF assms(1,2,3) True assms(4)]
  obtain fig where "canvas (plot_layer fs path_layer lay_type cmap n_bands) = Some fig"
    and "raised (plot_layer fs path_layer lay_type cmap n_bands) = Some IndexError"
    and "ax_title (fig_axes fig ! 0) = Some (basename (resolve_lay_type path_layer lay_type))"
    and "ax_title (fig_axes fig ! 1) = None" and "ax_image (fig_axes fig ! 1) \<noteq> None"
    by blast
  with True assms(4) show ?thesis by (simp add: opt_title_layer_options)
next
  case False
  then have "RasterCount ds < resolve_n_bands ds n_bands" by simp
  from plot_layer_band_fail [where fs = fs and path_layer = path_layer, OF assms(1) this]
    False assms(4)
  show ?thesis by (simp add: opt_title_layer_options)
qed

theorem multiband_title_failure_witness:
  "example_files 2 ''a/b/water/x.tif'' = Some (example_raster 2) \<and>
   2 \<le> resolve_n_bands (example_raster 2) None \<and>
   resolve_n_bands (example_raster 2) None \<le> 3 \<and>
   resolve_lay_type ''a/b/water/x.tif'' (Some ''defo'') \<noteq> ''ENU'' \<and>
   raised (plot_layer (example_files 2) ''a/b/water/x.tif'' (Some ''defo'') None None) =
     Some IndexError \<and>
   (\<exists>fig. canvas (plot_layer (example_files 2) ''a/b/water/x.tif'' (Some ''defo'') None None) =
            Some fig \<and>
      ax_title (fig_axes fig ! 0) = Some ''defo'' \<and>
      ax_image (fig_axes fig ! 1) \<noteq> None \<and> ax_title (fig_axes fig ! 1) = None)"
proof -
  have o: "example_files 2 ''a/b/water/x.tif'' = Some (example_raster 2)"
    by (rule example_files_open)
  have n: "2 \<le> resolve_n_bands (example_raster 2) None"
      "resolve_n_bands (example_raster 2) None \<le> 3"
    by (simp_all add: resolve_n_bands_example)
  have l: "resolve_lay_type ''a/b/water/x.tif'' (Some ''defo'') \<noteq> ''ENU''"
    by (simp add: resolve_lay_type_def)
  have b: "basename (resolve_lay_type ''a/b/water/x.tif'' (Some ''defo'')) = ''defo''"
    by (simp add: resolve_lay_type_def basename_def)
  from multiband_title_failure [where fs = "example_files 2" and cmap = None, OF o n l] o n l
  show ?thesis by (simp add: resolve_n_bands_example RasterCount_example b)
qed

text \<open>
  C8 as stated fails: with 3 bands asked of a raster of 2 and the layer type \<open>defo\<close>
  the call fails on reading band 3; the rendering loop is not reached and no figure
  exists.
\<close>

theorem multiband_title_counterexample:
  "example_files 2 ''a/b/water/x.tif'' = Some (example_raster 2) \<and>
   resolve_n_bands (example_raster 2) (Some 3) = 3 \<and>
   resolve_lay_type ''a/b/water/x.tif'' (Some ''defo'') \<noteq> ''ENU'' \<and>
   raised (plot_layer (example_files 2) ''a/b/water/x.tif'' (Some ''defo'') None (Some 3)) =
     Some (BandError 3) \<and>
   canvas (plot_layer (example_files 2) ''a/b/water/x.tif'' (Some ''defo'') None (Some 3)) = None"
proof -
  have o: "example_files 2 ''a/b/water/x.tif'' = Some (example_raster 2)"
    by (rule example_files_open)
  have n: "RasterCount (example_raster 2) < resolve_n_bands (example_raster 2) (Some 3)"
    by (simp add: resolve_n_bands_example RasterCount_example)
  from plot_layer_band_fail [where fs = "example_files 2" and lay_type_arg = "Some ''defo''"
      and cmap_arg = None, OF o n] o
  show ?thesis by (simp add: resolve_n_bands_example length_bands_example resolve_lay_type_def)
qed

text \<open>
  C10, as the code has it. A band count passed as 0 is taken as omitted: the call is the
  same as the one without the argument and the band count used is the number of bands of
  the dataset. When the dataset has one band, or two or three bands and the layer type
  is \<open>ENU\<close>, the call completes and every band of the dataset is rendered, in order.
\<close>

theorem zero_band_count_as_omitted:
  "plot_layer fs path_layer lay_type cmap (Some 0) = plot_layer fs path_layer lay_type cmap None \<and>
   resolve_n_bands ds (Some 0) = RasterCount ds \<and>
   resolve_n_bands ds None = RasterCount ds \<and>
   (fs path_layer = Some ds \<longrightarrow> 1 \<le> RasterCount ds \<longrightarrow> RasterCount ds \<le> 3 \<longrightarrow>
    RasterCount ds = 1 \<or> resolve_lay_type path_layer lay_type = ''ENU'' \<longrightarrow>
      raised (plot_layer fs path_layer lay_type cmap (Some 0)) = None \<and>
      (\<exists>fig. canvas (plot_layer fs path_layer lay_type cmap (Some 0)) = Some fig \<and>
         fig_axes fig \<noteq> [] \<and>
         length (fig_axes fig) = length (raster_bands ds) \<and>
         (\<forall>i < length (raster_bands ds). \<exists>im.
            ax_image (fig_axes fig ! i) = Some im \<and>
            im_array im = snd (load_band (raster_bands ds ! i)))))"
proof (intro conjI impI)
  show "plot_layer fs path_layer lay_type cmap (Some 0) =
      plot_layer fs path_layer lay_type cmap None"
    by (simp add: plot_layer_def resolve_n_bands_def cong: option.case_cong)
  show n: "resolve_n_bands ds (Some 0) = RasterCount ds"
    by (simp add: resolve_n_bands_def)
  show "resolve_n_bands ds None = RasterCount ds"
    by (simp add: resolve_n_bands_def)
  assume o: "fs path_layer = Some ds"
    and c: "1 \<le> RasterCount ds" "RasterCount ds \<le> 3"
      "RasterCount ds = 1 \<or> resolve_lay_type path_layer lay_type = ''ENU''"
  show r: "raised (plot_layer fs path_layer lay_type cmap (Some 0)) = None"
    using c plot_layer_completes_iff [where fs = fs and path_layer = path_layer
        and n_bands_arg = "Some 0", OF o]
    by (simp add: n)
  from plot_layer_completed [where fs = fs and path_layer = path_layer, OF o r] c(1)
  show "\<exists>fig. canvas (plot_layer fs path_layer lay_type cmap (Some 0)) = Some fig \<and>
         fig_axes fig \<noteq> [] \<and>
         length (fig_axes fig) = length (raster_bands ds) \<and>
         (\<forall>i < length (raster_bands ds). \<exists>im.
            ax_image (fig_axes fig ! i) = Some im \<and>
            im_array im = snd (load_band (raster_bands ds ! i)))"
    by (auto simp: n range_def RasterCount_def)
qed

theorem zero_band_count_as_omitted_witness:
  "example_files 3 ''a/b/water/x.tif'' = Some (example_raster 3) \<and>
   1 \<le> RasterCount (example_raster 3) \<and> RasterCount (example_raster 3) \<le> 3 \<and>
   resolve_lay_type ''a/b/water/x.tif'' (Some ''ENU'') = ''ENU'' \<and>
   plot_layer (example_files 3) ''a/b/water/x.tif'' (Some ''ENU'') None (Some 0) =
     plot_layer (example_files 3) ''a/b/water/x.tif'' (Some ''ENU'') None None \<and>
   raised (plot_layer (example_files 3) ''a/b/water/x.tif'' (Some ''ENU'') None (Some 0)) = None \<and>
   (\<exists>fig. canvas (plot_layer (example_files 3) ''a/b/water/x.tif'' (Some ''ENU'') None (Some 0)) =
            Some fig \<and>
      length (fig_axes fig) = 3 \<and>
      (\<exists>im. ax_image (fig_axes fig ! 2) = Some im \<and> im_array im = snd (load_band example_band)))"
proof -
  have o: "example_files 3 ''a/b/water/x.tif'' = Some (example_raster 3)"
    by (rule example_files_open)
  have c: "1 \<le> RasterCount (example_raster 3)" "RasterCount (example_raster 3) \<le> 3"
    by (simp_all add: RasterCount_example)
  have l: "resolve_lay_type ''a/b/water/x.tif'' (Some ''ENU'') = ''ENU''"
    by (simp add: resolve_lay_type_def)
  then have l': "RasterCount (example_raster 3) = 1 \<or>
      resolve_lay_type ''a/b/water/x.tif'' (Some ''ENU'') = ''ENU''" ..
  note t = zero_band_count_as_omitted [where fs = "example_files 3"
      and path_layer = "''a/b/water/x.tif''" and lay_type = "Some ''ENU''" and cmap = None
      and ds = "example_raster 3"]
  from t have e: "plot_layer (example_files 3) ''a/b/water/x.tif'' (Some ''ENU'') None (Some 0) =
     plot_layer (example_files 3) ''a/b/water/x.tif'' (Some ''ENU'') None None"
    by (rule conjunct1)
  from t o c l' have
    r: "raised (plot_layer (example_files 3) ''a/b/water/x.tif'' (Some ''ENU'') None (Some 0)) =
        None"
    by blast
  from t o c l' obtain fig where
    f: "canvas (plot_layer (example_files 3) ''a/b/water/x.tif'' (Some ''ENU'') None (Some 0)) =
        Some fig"
    and n: "length (fig_axes fig) = length (raster_bands (example_raster 3))"
    and a: "\<forall>i < length (raster_bands (example_raster 3)). \<exists>im.
            ax_image (fig_axes fig ! i) = Some im \<and>
            im_array im = snd (load_band (raster_bands (example_raster 3) ! i))"
    by blast
  from n have n': "length (fig_axes fig) = 3"
    by (simp add: length_bands_example)
  have "(2::nat) < length (raster_bands (example_raster 3))"
    by (simp add: length_bands_example)
  with a obtain im where "ax_image (fig_axes fig ! 2) = Some im"
    and "im_array im = snd (load_band (raster_bands (example_raster 3) ! 2))"
    by blast
  then have "ax_image (fig_axes fig ! 2) = Some im \<and> im_array im = snd (load_band example_band)"
    by (simp add: example_raster_def)
  with o c l e r f n' show ?thesis by blast
qed

text \<open>
  C10 as stated fails: with the band count passed as 0 on a raster of 5 bands the band
  count is 5, the call fails as unsupported and no band is rendered.
\<close>

theorem zero_band_count_counterexample:
  "resolve_n_bands (example_raster 5) (Some 0) = 5 \<and>
   raised (plot_layer (example_files 5) ''a/b/water/x.tif'' None None (Some 0)) =
     Some UnsupportedBands \<and>
   canvas (plot_layer (example_files 5) ''a/b/water/x.tif'' None None (Some 0)) = None"
proof -
  have o: "example_files 5 ''a/b/water/x.tif'' = Some (example_raster 5)"
    by (rule example_files_open)
  have n: "resolve_n_bands (example_raster 5) (Some 0) \<le> RasterCount (example_raster 5)"
      "4 \<le> resolve_n_bands (example_raster 5) (Some 0)"
    by (simp_all add: resolve_n_bands_example RasterCount_example)
  from plot_layer_unsupported [where fs = "example_files 5" and lay_type_arg = None
      and cmap_arg = None, OF o n]
  show ?thesis by (simp add: resolve_n_bands_example)
qed

text \<open>
  C1, as the code has it. For every band read, and so for every band of a completed call,
  the array handed to the rendering keeps the values read, and a pixel is masked if and
  only if it compares greater than \<open>1e20\<close> or equal to the no-data value the band
  returned. The comparisons are numpy's, in the type of the band: signed, not of
  magnitudes, and false on NaN.
\<close>

theorem masking_rule:
  assumes "fs path_layer = Some ds"
    and "raised (plot_layer fs path_layer lay_type cmap n_bands) = None"
  shows "ma_data (snd (load_band raster)) = ReadAsArray raster \<and>
         ma_mask (snd (load_band raster)) =
           map (map (\<lambda>v.
              np_greater (element_as_compared raster v)
                (scalar_as_compared raster (Num (10 ^ 20))) \<or>
              (\<exists>s. GetNoDataValue raster = NoDataValue (Some s) \<and>
                   np_equal (element_as_compared raster v) (scalar_as_compared raster s))))
             (ReadAsArray raster) \<and>
         (\<exists>fig. canvas (plot_layer fs path_layer lay_type cmap n_bands) = Some fig \<and>
           length (fig_axes fig) = nat (resolve_n_bands ds n_bands) \<and>
           fig_axes fig \<noteq> [] \<and>
           (\<forall>i < length (fig_axes fig). \<exists>im.
              ax_image (fig_axes fig ! i) = Some im \<and>
              ma_data (im_array im) = ReadAsArray (raster_bands ds ! i) \<and>
              ma_mask (im_array im) =
                map (map (\<lambda>v.
                   np_greater (element_as_compared (raster_bands ds ! i) v)
                     (scalar_as_compared (raster_bands ds ! i) (Num (10 ^ 20))) \<or>
                   (\<exists>s. GetNoDataValue (raster_bands ds ! i) = NoDataValue (Some s) \<and>
                        np_equal (element_as_compared (raster_bands ds ! i) v)
                          (scalar_as_compared (raster_bands ds ! i) s))))
                  (ReadAsArray (raster_bands ds ! i))))"
  using plot_layer_completed [where fs = fs and path_layer = path_layer, OF assms]
  by (simp add: range_def load_band_mask masked_where_def)

theorem masking_rule_witness:
  "example_files 1 ''a/b/water/x.tif'' = Some (example_raster 1) \<and>
   raised (plot_layer (example_files 1) ''a/b/water/x.tif'' None None None) = None \<and>
   (\<exists>fig. canvas (plot_layer (example_files 1) ''a/b/water/x.tif'' None None None) = Some fig \<and>
      (\<exists>im. ax_image (fig_axes fig ! 0) = Some im \<and>
         ma_data (im_array im) =
           [[Num 0, Num (10 ^ 21), PosInf], [Num (- (10 ^ 21)), Num 5, NaN]] \<and>
         ma_mask (im_array im) = [[True, True, True], [False, False, False]]))"
proof -
  have o: "example_files 1 ''a/b/water/x.tif'' = Some (example_raster 1)"
    by (rule example_files_open)
  have r: "raised (plot_layer (example_files 1) ''a/b/water/x.tif'' None None None) = None"
    using plot_layer_completes_iff [where fs = "example_files 1" and lay_type_arg = None
        and cmap_arg = None and n_bands_arg = None, OF o]
    by (simp add: resolve_n_bands_example RasterCount_example)
  let ?b = "raster_bands (example_raster 1) ! 0"
  from masking_rule [where fs = "example_files 1" and lay_type = None and cmap = None
      and n_bands = None and raster = example_band, OF o r]
  obtain fig where f: "canvas (plot_layer (example_files 1) ''a/b/water/x.tif'' None None None) =
        Some fig"
    and l: "fig_axes fig \<noteq> []"
    and a: "\<forall>i < length (fig_axes fig). \<exists>im.
              ax_image (fig_axes fig ! i) = Some im \<and>
              ma_data (im_array im) = ReadAsArray (raster_bands (example_raster 1) ! i) \<and>
              ma_mask (im_array im) =
                map (map (\<lambda>v.
                   np_greater (element_as_compared (raster_bands (example_raster 1) ! i) v)
                     (scalar_as_compared (raster_bands (example_raster 1) ! i) (Num (10 ^ 20))) \<or>
                   (\<exists>s. GetNoDataValue (raster_bands (example_raster 1) ! i) =
                          NoDataValue (Some s) \<and>
                        np_equal (element_as_compared (raster_bands (example_raster 1) ! i) v)
                          (scalar_as_compared (raster_bands (example_raster 1) ! i) s))))
                  (ReadAsArray (raster_bands (example_raster 1) ! i))"
    by blast
  from l have "0 < length (fig_axes fig)" by simp
  with a obtain im where "ax_image (fig_axes fig ! 0) = Some im"
    and "ma_data (im_array im) = ReadAsArray ?b"
    and "ma_mask (im_array im) =
           map (map (\<lambda>v.
              np_greater (element_as_compared ?b v) (scalar_as_compared ?b (Num (10 ^ 20))) \<or>
              (\<exists>s. GetNoDataValue ?b = NoDataValue (Some s) \<and>
                   np_equal (element_as_compared ?b v) (scalar_as_compared ?b s))))
             (ReadAsArray ?b)"
    by blast
  then have "ax_image (fig_axes fig ! 0) = Some im \<and>
         ma_data (im_array im) =
           [[Num 0, Num (10 ^ 21), PosInf], [Num (- (10 ^ 21)), Num 5, NaN]] \<and>
         ma_mask (im_array im) = [[True, True, True], [False, False, False]]"
    by (simp add: example_raster_def example_band_def)
  with o r f show ?thesis by blast
qed

text \<open>
  C1 as stated fails: in a 64-bit float band a pixel of value \<open>- 10 ^ 21\<close> is above
  \<open>10 ^ 20\<close> in magnitude and differs from the no-data value 0, and it is not masked.
\<close>

theorem masking_magnitude_counterexample:
  "10 ^ 20 < \<bar>- (10 ^ 21) :: real\<bar> \<and>
   ma_mask (snd (load_band
     \<lparr>ReadAsArray = [[Num (- (10 ^ 21))]], GetNoDataValue = NoDataValue (Some (Num 0)),
      element_as_compared = (\<lambda>v. v), scalar_as_compared = (\<lambda>s. s)\<rparr>)) = [[False]]"
  by (simp add: load_band_mask masked_where_def)

text \<open>
  C6, as the code has it. With the layer type omitted or empty, the layer type used is
  the whole directory path of the raster (\<open>os.path.dirname\<close>): the call is the one that
  passes that path as the layer type, and the colormap, the bounds and the colorbar of
  every subplot of a completed call are those that the chain of tests gives for that
  path. Only the title is its last segment. For a path \<open>dir/seg/fname\<close> the layer type
  is \<open>dir/seg\<close> and the title \<open>seg\<close>.
\<close>

theorem layer_type_from_directory:
  assumes "lay_type = None \<or> lay_type = Some []"
  shows "resolve_lay_type path_layer lay_type = dirname path_layer \<and>
         plot_layer fs path_layer lay_type cmap n_bands =
           plot_layer fs path_layer (Some (dirname path_layer)) cmap n_bands \<and>
         (fs path_layer = Some ds \<longrightarrow>
          raised (plot_layer fs path_layer lay_type cmap n_bands) = None \<longrightarrow>
            (\<exists>fig. canvas (plot_layer fs path_layer lay_type cmap n_bands) = Some fig \<and>
               fig_axes fig \<noteq> [] \<and>
               (\<forall>i < length (fig_axes fig). \<exists>im.
                  ax_image (fig_axes fig ! i) = Some im \<and>
                  im_cmap im =
                    opt_cmap (layer_options (dirname path_layer) Greys_r
                                [basename (dirname path_layer)]) \<and>
                  im_vmin im =
                    opt_vmin (layer_options (dirname path_layer) Greys_r
                                [basename (dirname path_layer)]) \<and>
                  im_vmax im =
                    opt_vmax (layer_options (dirname path_layer) Greys_r
                                [basename (dirname path_layer)]) \<and>
                  ax_colorbar (fig_axes fig ! i) =
                    Some (if dirname path_layer = ''ENU'' then ColorbarFormat3f
                          else if startswith (dirname path_layer) ''water''
                               then ColorbarTicks
                                 [opt_vmin (layer_options (dirname path_layer) Greys_r
                                              [basename (dirname path_layer)]),
                                  opt_vmax (layer_options (dirname path_layer) Greys_r
                                              [basename (dirname path_layer)])]
                          else ColorbarPlain) \<and>
                  ax_title (fig_axes fig ! i) =
                    Some (if dirname path_layer = ''ENU'' then [''East'', ''North'', ''Up''] ! i
                          else basename (dirname path_layer))))) \<and>
         (path_layer = dir @ ''/'' @ seg @ ''/'' @ fname \<longrightarrow>
          CHR ''/'' \<notin> set seg \<longrightarrow> seg \<noteq> [] \<longrightarrow> CHR ''/'' \<notin> set fname \<longrightarrow>
            dirname path_layer = dir @ ''/'' @ seg \<and> basename (dirname path_layer) = seg)"
proof (intro conjI impI)
  show r: "resolve_lay_type path_layer lay_type = dirname path_layer"
    using assms by (auto simp: resolve_lay_type_def)
  show "plot_layer fs path_layer lay_type cmap n_bands =
          plot_layer fs path_layer (Some (dirname path_layer)) cmap n_bands"
    unfolding plot_layer_def r resolve_lay_type_dirname ..
next
  assume o: "fs path_layer = Some ds"
    and c: "raised (plot_layer fs path_layer lay_type cmap n_bands) = None"
  let ?l = "dirname path_layer"
  let ?opts = "layer_options ?l Greys_r [basename ?l]"
  have r: "resolve_lay_type path_layer lay_type = ?l"
    using assms by (auto simp: resolve_lay_type_def)
  note t = plot_layer_completed [where fs = fs and path_layer = path_layer, OF o c,
      unfolded r]
  from t have n: "1 \<le> resolve_n_bands ds n_bands"
    and tl: "nat (resolve_n_bands ds n_bands) \<le> length (opt_title ?opts)"
    by blast+
  have title: "i < nat (resolve_n_bands ds n_bands) \<Longrightarrow>
      opt_title ?opts ! i =
        (if ?l = ''ENU'' then [''East'', ''North'', ''Up''] ! i else basename ?l)" for i
  proof (cases "?l = ''ENU''")
    case True
    then show ?thesis by (simp add: opt_title_layer_options)
  next
    case False
    assume "i < nat (resolve_n_bands ds n_bands)"
    with tl False have "i = 0" by (simp add: opt_title_layer_options)
    with False show ?thesis by (simp add: opt_title_layer_options)
  qed
  show "\<exists>fig. canvas (plot_layer fs path_layer lay_type cmap n_bands) = Some fig \<and>
               fig_axes fig \<noteq> [] \<and>
               (\<forall>i < length (fig_axes fig). \<exists>im.
                  ax_image (fig_axes fig ! i) = Some im \<and>
                  im_cmap im = opt_cmap ?opts \<and>
                  im_vmin im = opt_vmin ?opts \<and>
                  im_vmax im = opt_vmax ?opts \<and>
                  ax_colorbar (fig_axes fig ! i) =
                    Some (if dirname path_layer = ''ENU'' then ColorbarFormat3f
                          else if startswith (dirname path_layer) ''water''
                               then ColorbarTicks [opt_vmin ?opts, opt_vmax ?opts]
                          else ColorbarPlain) \<and>
                  ax_title (fig_axes fig ! i) =
                    Some (if dirname path_layer = ''ENU'' then [''East'', ''North'', ''Up''] ! i
                          else basename (dirname path_layer)))"
    using t n by (auto simp: range_def title)
next
  assume p: "path_layer = dir @ ''/'' @ seg @ ''/'' @ fname"
    and s: "CHR ''/'' \<notin> set seg" "seg \<noteq> []" and f: "CHR ''/'' \<notin> set fname"
  from f s show d: "dirname path_layer = dir @ ''/'' @ seg"
    unfolding p by (rule dirname_nested)
  from s(1) show "basename (dirname path_layer) = seg"
    unfolding d by (rule basename_last_segment)
qed

theorem layer_type_from_directory_witness:
  "example_files 1 ''a/b/water/x.tif'' = Some (example_raster 1) \<and>
   raised (plot_layer (example_files 1) ''a/b/water/x.tif'' None None None) = None \<and>
   resolve_lay_type ''a/b/water/x.tif'' None = ''a/b/water'' \<and>
   basename ''a/b/water'' = ''water'' \<and>
   plot_layer (example_files 1) ''a/b/water/x.tif'' None None None =
     plot_layer (example_files 1) ''a/b/water/x.tif'' (Some ''a/b/water'') None None \<and>
   (\<exists>fig. canvas (plot_layer (example_files 1) ''a/b/water/x.tif'' None None None) = Some fig \<and>
      (\<exists>im. ax_image (fig_axes fig ! 0) = Some im \<and>
         im_cmap im = Coolwarm \<and> im_vmin im = None \<and> im_vmax im = None) \<and>
      ax_colorbar (fig_axes fig ! 0) = Some ColorbarPlain \<and>
      ax_title (fig_axes fig ! 0) = Some ''water'')"
proof -
  have a: "(None :: string option) = None \<or> (None :: string option) = Some []" by simp
  have p: "''a/b/water/x.tif'' = ''a/b'' @ ''/'' @ ''water'' @ ''/'' @ ''x.tif''" by simp
  have s: "CHR ''/'' \<notin> set ''water''" "''water'' \<noteq> []" "CHR ''/'' \<notin> set ''x.tif''"
    by simp_all
  have o: "example_files 1 ''a/b/water/x.tif'' = Some (example_raster 1)"
    by (rule example_files_open)
  have c: "raised (plot_layer (example_files 1) ''a/b/water/x.tif'' None None None) = None"
    using plot_layer_completes_iff [where fs = "example_files 1" and lay_type_arg = None
        and cmap_arg = None and n_bands_arg = None, OF o]
    by (simp add: resolve_n_bands_example RasterCount_example)
  note t = layer_type_from_directory [where lay_type = None
      and path_layer = "''a/b/water/x.tif''"
      and dir = "''a/b''" and seg = "''water''" and fname = "''x.tif''"
      and fs = "example_files 1" and cmap = None and n_bands = None
      and ds = "example_raster 1", OF a]
  from t have r: "resolve_lay_type ''a/b/water/x.tif'' None = dirname ''a/b/water/x.tif''"
    by (rule conjunct1)
  from t have e: "plot_layer (example_files 1) ''a/b/water/x.tif'' None None None =
      plot_layer (example_files 1) ''a/b/water/x.tif'' (Some (dirname ''a/b/water/x.tif'')) None None"
    by (rule conjunct2 [THEN conjunct1])
  from t p s have d: "dirname ''a/b/water/x.tif'' = ''a/b'' @ ''/'' @ ''water'' \<and>
      basename (dirname ''a/b/water/x.tif'') = ''water''"
    by blast
  then have d1: "dirname ''a/b/water/x.tif'' = ''a/b/water''" by simp
  from d have d2: "basename ''a/b/water'' = ''water''" unfolding d1 by (rule conjunct2)
  have opts: "layer_options ''a/b/water'' Greys_r [''water''] =
      \<lparr>opt_vmin = None, opt_vmax = None, opt_cmap = Coolwarm, opt_title = [''water''],
       opt_wspace = None\<rparr>"
    by (simp add: layer_options_def startswith_def endswith_def)
  have w: "\<not> startswith ''a/b/water'' ''water''" "''a/b/water'' \<noteq> ''ENU''"
    by (simp_all add: startswith_def)
  from t o c obtain fig where
    f: "canvas (plot_layer (example_files 1) ''a/b/water/x.tif'' None None None) = Some fig"
    and l: "fig_axes fig \<noteq> []"
    and x: "\<forall>i < length (fig_axes fig). \<exists>im.
                  ax_image (fig_axes fig ! i) = Some im \<and>
                  im_cmap im =
                    opt_cmap (layer_options (dirname ''a/b/water/x.tif'') Greys_r
                                [basename (dirname ''a/b/water/x.tif'')]) \<and>
                  im_vmin im =
                    opt_vmin (layer_options (dirname ''a/b/water/x.tif'') Greys_r
                                [basename (dirname ''a/b/water/x.tif'')]) \<and>
                  im_vmax im =
                    opt_vmax (layer_options (dirname ''a/b/water/x.tif'') Greys_r
                                [basename (dirname ''a/b/water/x.tif'')]) \<and>
                  ax_colorbar (fig_axes fig ! i) =
                    Some (if dirname ''a/b/water/x.tif'' = ''ENU'' then ColorbarFormat3f
                          else if startswith (dirname ''a/b/water/x.tif'') ''water''
                               then ColorbarTicks
                                 [opt_vmin (layer_options (dirname ''a/b/water/x.tif'') Greys_r
                                              [basename (dirname ''a/b/water/x.tif'')]),
                                  opt_vmax (layer_options (dirname ''a/b/water/x.tif'') Greys_r
                                              [basename (dirname ''a/b/water/x.tif'')])]
                          else ColorbarPlain) \<and>
                  ax_title (fig_axes fig ! i) =
                    Some (if dirname ''a/b/water/x.tif'' = ''ENU''
                          then [''East'', ''North'', ''Up''] ! i
                          else basename (dirname ''a/b/water/x.tif''))"
    by blast
  from l have "0 < length (fig_axes fig)" by simp
  with x have "(\<exists>im. ax_image (fig_axes fig ! 0) = Some im \<and>
         im_cmap im = Coolwarm \<and> im_vmin im = None \<and> im_vmax im = None) \<and>
      ax_colorbar (fig_axes fig ! 0) = Some ColorbarPlain \<and>
      ax_title (fig_axes fig ! 0) = Some ''water''"
    unfolding d1 d2 opts using w by fastforce
  with o c r e d2 f show ?thesis unfolding d1 by blast
qed

text \<open>
  C6 as stated fails: for \<open>a/b/water/x.tif\<close> the layer type is \<open>a/b/water\<close>, which
  does not start with \<open>water\<close>. The subplot has the colormap, the bounds and the colorbar
  of the last branch of the chain and only its title is \<open>water\<close>; the style of a layer
  type starting with \<open>water\<close> is the one of the second call, which passes \<open>water\<close>.
\<close>

theorem layer_type_from_directory_counterexample:
  "resolve_lay_type ''a/b/water/x.tif'' None = ''a/b/water'' \<and>
   \<not> startswith (resolve_lay_type ''a/b/water/x.tif'' None) ''water'' \<and>
   canvas (plot_layer (example_files 1) ''a/b/water/x.tif'' None None None) =
     Some \<lparr>fig_nrows = 1, fig_ncols = 1, fig_wspace = None,
           fig_axes =
             [\<lparr>ax_image = Some \<lparr>im_array = snd (load_band example_band), im_cmap = Coolwarm,
                                 im_vmin = None, im_vmax = None,
                                 im_extent = [- 120, - 119, 34, 35]\<rparr>,
               ax_colorbar = Some ColorbarPlain, ax_title = Some ''water'',
               ax_grid = Some False, ax_ylabel = Some ''latitude'',
               ax_xlabel = Some ''longitude''\<rparr>]\<rparr> \<and>
   canvas (plot_layer (example_files 1) ''a/b/water/x.tif'' (Some ''water'') None None) =
     Some \<lparr>fig_nrows = 1, fig_ncols = 1, fig_wspace = None,
           fig_axes =
             [\<lparr>ax_image = Some \<lparr>im_array = snd (load_band example_band), im_cmap = Greys,
                                 im_vmin = Some 0, im_vmax = Some 1,
                                 im_extent = [- 120, - 119, 34, 35]\<rparr>,
               ax_colorbar = Some (ColorbarTicks [Some 0, Some 1]), ax_title = Some ''water'',
               ax_grid = Some False, ax_ylabel = Some ''latitude'',
               ax_xlabel = Some ''longitude''\<rparr>]\<rparr>"
proof -
  have o: "example_files 1 ''a/b/water/x.tif'' = Some (example_raster 1)"
    by (rule example_files_open)
  have n: "1 \<le> resolve_n_bands (example_raster 1) None"
      "resolve_n_bands (example_raster 1) None \<le> 3"
      "resolve_n_bands (example_raster 1) None \<le> RasterCount (example_raster 1)"
    by (simp_all add: resolve_n_bands_example RasterCount_example)
  have l: "resolve_lay_type ''a/b/water/x.tif'' None = ''a/b/water''"
    by (simp add: resolve_lay_type_def dirname_def path_head_def rstrip_sep_def Let_def)
  have l': "resolve_lay_type ''a/b/water/x.tif'' (Some ''water'') = ''water''"
    by (simp add: resolve_lay_type_def)
  have b: "basename ''a/b/water'' = ''water''" "basename ''water'' = ''water''"
    by (simp_all add: basename_def)
  have opts: "layer_options ''a/b/water'' Greys_r [''water''] =
      \<lparr>opt_vmin = None, opt_vmax = None, opt_cmap = Coolwarm, opt_title = [''water''],
       opt_wspace = None\<rparr>"
    "layer_options ''water'' Greys_r [''water''] =
      \<lparr>opt_vmin = Some 0, opt_vmax = Some 1, opt_cmap = Greys, opt_title = [''water''],
       opt_wspace = None\<rparr>"
    by (simp_all add: layer_options_def startswith_def endswith_def)
  have w: "\<not> startswith ''a/b/water'' ''water''" "''a/b/water'' \<noteq> ''ENU''"
    "startswith ''water'' ''water''" "''water'' \<noteq> ''ENU''"
    by (simp_all add: startswith_def)
  have x: "extent_of (example_raster 1) = [- 120, - 119, 34, 35]"
    by (simp add: extent_of_def example_raster_def)
  have g: "range (resolve_n_bands (example_raster 1) None) = [0]"
    "nat (resolve_n_bands (example_raster 1) None div 2) = 0"
    by (simp_all add: resolve_n_bands_example range_def)
  have g': "raster_bands (example_raster 1) ! 0 = example_band" "range 1 = [0]"
    by (simp_all add: example_raster_def range_def)
  have t: "nat (resolve_n_bands (example_raster 1) None) \<le>
      length (opt_title (layer_options (resolve_lay_type ''a/b/water/x.tif'' None) Greys_r
                           [basename (resolve_lay_type ''a/b/water/x.tif'' None)]))"
    "nat (resolve_n_bands (example_raster 1) None) \<le>
      length (opt_title (layer_options (resolve_lay_type ''a/b/water/x.tif'' (Some ''water''))
                           Greys_r
                           [basename (resolve_lay_type ''a/b/water/x.tif'' (Some ''water''))]))"
    by (simp_all add: l l' b opts resolve_n_bands_example)
  have "canvas (plot_layer (example_files 1) ''a/b/water/x.tif'' None None None) =
     Some \<lparr>fig_nrows = 1, fig_ncols = 1, fig_wspace = None,
           fig_axes =
             [\<lparr>ax_image = Some \<lparr>im_array = snd (load_band example_band), im_cmap = Coolwarm,
                                 im_vmin = None, im_vmax = None,
                                 im_extent = [- 120, - 119, 34, 35]\<rparr>,
               ax_colorbar = Some ColorbarPlain, ax_title = Some ''water'',
               ax_grid = Some False, ax_ylabel = Some ''latitude'',
               ax_xlabel = Some ''longitude''\<rparr>]\<rparr>"
    using plot_layer_rendered [where fs = "example_files 1" and lay_type_arg = None
        and cmap_arg = None and n_bands_arg = None, OF o n t(1)]
    by (simp add: l b opts g g' x w resolve_n_bands_example del: One_nat_def)
  moreover have "canvas (plot_layer (example_files 1) ''a/b/water/x.tif'' (Some ''water'') None None) =
     Some \<lparr>fig_nrows = 1, fig_ncols = 1, fig_wspace = None,
           fig_axes =
             [\<lparr>ax_image = Some \<lparr>im_array = snd (load_band example_band), im_cmap = Greys,
                                 im_vmin = Some 0, im_vmax = Some 1,
                                 im_extent = [- 120, - 119, 34, 35]\<rparr>,
               ax_colorbar = Some (ColorbarTicks [Some 0, Some 1]), ax_title = Some ''water'',
               ax_grid = Some False, ax_ylabel = Some ''latitude'',
               ax_xlabel = Some ''longitude''\<rparr>]\<rparr>"
    using plot_layer_rendered [where fs = "example_files 1" and lay_type_arg = "Some ''water''"
        and cmap_arg = None and n_bands_arg = None, OF o n t(2)]
    by (simp add: l' b opts g g' x w resolve_n_bands_example del: One_nat_def)
  ultimately show ?thesis using l w(1) by simp
qed



end
